theory Spec2Isabelle
  imports Complex_Main "HOL-Library.Word"
begin

section \<open>The rule-based SEO scoring engine (lib/seoEngine.ts)\<close>

text \<open>
  A shallow embedding of \<^verbatim>\<open>analyzeSeo\<close> and of the helpers it calls. The engine is a
  pure function from \<^verbatim>\<open>SeoInput\<close> to \<^verbatim>\<open>SeoResult\<close>; no statement of the source can
  throw, so the model is a total function with no error value.

  Modelling conventions.
  \<^item> A JavaScript string is the list of its UTF-16 code units (\<open>16 word list\<close>);
    \<^verbatim>\<open>.length\<close> is \<open>length\<close>. ASCII literals are written \<open>js ''...''\<close>, other code
    units by their number.
  \<^item> \<^verbatim>\<open>toLowerCase\<close> and the case folding of the \<^verbatim>\<open>i\<close> flag are written out for the
    code units U+0000 to U+00FF (Basic Latin and Latin-1, which holds the Danish
    letters); a code unit above U+00FF is left as it is.
  \<^item> A \<^verbatim>\<open>number\<close> that is a count is an \<open>int\<close> (the optional overrides) or a \<open>nat\<close>
    (lengths and match counts). The one division of the source,
    \<^verbatim>\<open>semanticCovered / semanticTotal\<close>, is computed over the reals, and
    \<^verbatim>\<open>Math.round x\<close> is \<open>\<lfloor>x + 1/2\<rfloor>\<close>.
  \<^item> An optional field (\<^verbatim>\<open>wordCount?: number\<close>) is an \<open>option\<close>; \<^verbatim>\<open>a ?? b\<close> is the
    case distinction on it.
  \<^item> The free-text \<^verbatim>\<open>detail\<close> of a recommendation is display text that no other
    part of the engine reads; the recommendation record carries \<^verbatim>\<open>id\<close>,
    \<^verbatim>\<open>label\<close>, \<^verbatim>\<open>status\<close> and \<^verbatim>\<open>statusLabel\<close>.
\<close>

subsection \<open>Strings\<close>

type_synonym jsstring = "16 word list"

definition js :: "string \<Rightarrow> jsstring" where
  "js s = map of_char s"

definition toLowerCase_unit :: "16 word \<Rightarrow> 16 word" where
  "toLowerCase_unit c =
     (if (0x41 \<le> c \<and> c \<le> 0x5A) \<or> (0xC0 \<le> c \<and> c \<le> 0xDE \<and> c \<noteq> 0xD7)
      then c + 0x20 else c)"

definition toLowerCase :: "jsstring \<Rightarrow> jsstring" where
  "toLowerCase s = map toLowerCase_unit s"

text \<open>\<^verbatim>\<open>Canonicalize\<close> of a regular expression with the \<^verbatim>\<open>i\<close> flag (no \<^verbatim>\<open>u\<close> flag): the
  upper-case form of the code unit, when that is one code unit and does not map a
  non-ASCII unit into ASCII.\<close>

definition canonicalize :: "16 word \<Rightarrow> 16 word" where
  "canonicalize c =
     (if (0x61 \<le> c \<and> c \<le> 0x7A) \<or> (0xE0 \<le> c \<and> c \<le> 0xFE \<and> c \<noteq> 0xF7) then c - 0x20
      else if c = 0xB5 then 0x39C
      else if c = 0xFF then 0x178
      else c)"

text \<open>\<^verbatim>\<open>s.includes(p)\<close>: \<open>p\<close> starts at some index of \<open>s\<close> (the empty \<open>p\<close> at index 0).\<close>

definition starts_with :: "jsstring \<Rightarrow> jsstring \<Rightarrow> bool" where
  "starts_with p s = (take (length p) s = p)"

fun js_includes :: "jsstring \<Rightarrow> jsstring \<Rightarrow> bool" where
  "js_includes [] p = (p = [])"
| "js_includes (c # cs) p = (if starts_with p (c # cs) then True else js_includes cs p)"

text \<open>\<^verbatim>\<open>xs.join(sep)\<close>\<close>

fun join :: "jsstring \<Rightarrow> jsstring list \<Rightarrow> jsstring" where
  "join sep [] = []"
| "join sep [x] = x"
| "join sep (x # y # ys) = x @ sep @ join sep (y # ys)"

text \<open>A number in a template literal: the decimal digits of an integer (what JavaScript
  prints for an integer of magnitude below \<open>10^21\<close>).\<close>

fun digits :: "nat \<Rightarrow> jsstring" where
  "digits n = (if n < 10 then [0x30 + of_nat n] else digits (n div 10) @ [0x30 + of_nat (n mod 10)])"

definition number_to_string :: "int \<Rightarrow> jsstring" where
  "number_to_string n = (if n < 0 then 0x2D # digits (nat (- n)) else digits (nat n))"

text \<open>\<^verbatim>\<open>\s\<close>: the white space and line terminator code units of ECMAScript.\<close>

definition is_space :: "16 word \<Rightarrow> bool" where
  "is_space c =
     (if c \<in> {0x09, 0x0A, 0x0B, 0x0C, 0x0D, 0x20, 0xA0, 0x1680, 0x2028, 0x2029, 0x202F,
              0x205F, 0x3000, 0xFEFF} then True
      else 0x2000 \<le> c \<and> c \<le> 0x200A)"

text \<open>\<^verbatim>\<open>s.split(/\s+/)\<close>: the pieces between maximal runs of white space, with an empty
  first piece when \<open>s\<close> starts with white space and an empty last piece when it ends with
  it; \<^verbatim>\<open>''.split(/\s+/)\<close> is \<^verbatim>\<open>['']\<close>. The flag says that the scan is inside a
  separator, \<open>cur\<close> is the piece read so far.\<close>

fun split_ws :: "bool \<Rightarrow> jsstring \<Rightarrow> jsstring \<Rightarrow> jsstring list" where
  "split_ws insep cur [] = [cur]"
| "split_ws insep cur (c # cs) =
     (if is_space c then (if insep then split_ws True cur cs else cur # split_ws True [] cs)
      else split_ws False (cur @ [c]) cs)"

subsection \<open>The regular expressions of the engine\<close>

text \<open>
  Every regular expression of the source is an alternation of sequences of three kinds
  of atom: one code unit of a class, an optional one (\<^verbatim>\<open>?\<close>), and one or more
  (\<^verbatim>\<open>+\<close>). \<open>match_seq\<close> is the backtracking matcher of ECMAScript on such a sequence,
  anchored at the start of the string: a greedy atom first takes as much as it can and
  gives back one unit at a time when the rest fails. It returns the length of the match.
\<close>

datatype atom = One "16 word \<Rightarrow> bool" | Opt "16 word \<Rightarrow> bool" | Plus "16 word \<Rightarrow> bool"

fun match_seq :: "atom list \<Rightarrow> jsstring \<Rightarrow> nat option" where
  "match_seq [] s = Some 0"
| "match_seq (One p # as) [] = None"
| "match_seq (One p # as) (c # cs) = (if p c then map_option Suc (match_seq as cs) else None)"
| "match_seq (Opt p # as) [] = match_seq as []"
| "match_seq (Opt p # as) (c # cs) =
     (if p c then (case match_seq as cs of Some n \<Rightarrow> Some (Suc n) | None \<Rightarrow> match_seq as (c # cs))
      else match_seq as (c # cs))"
| "match_seq (Plus p # as) [] = None"
| "match_seq (Plus p # as) (c # cs) =
     (if p c then (case match_seq (Plus p # as) cs of Some n \<Rightarrow> Some (Suc n)
                   | None \<Rightarrow> map_option Suc (match_seq as cs))
      else None)"

text \<open>Alternatives are tried from left to right.\<close>

fun match_alt :: "atom list list \<Rightarrow> jsstring \<Rightarrow> nat option" where
  "match_alt [] s = None"
| "match_alt (r # rs) s = (case match_seq r s of Some n \<Rightarrow> Some n | None \<Rightarrow> match_alt rs s)"

text \<open>\<^verbatim>\<open>(s.match(/r/g) || []).length\<close>: the search moves right to the first index with a
  match and goes on behind the match (one unit further on after an empty match).\<close>

fun match_count :: "atom list list \<Rightarrow> jsstring \<Rightarrow> nat" where
  "match_count r [] = (case match_alt r [] of Some n \<Rightarrow> 1 | None \<Rightarrow> 0)"
| "match_count r (c # cs) =
     (case match_alt r (c # cs) of
        None \<Rightarrow> match_count r cs
      | Some n \<Rightarrow> 1 + match_count r (drop (n - 1) cs))"

text \<open>\<^verbatim>\<open>/r/.test(s)\<close>\<close>

fun rx_test :: "atom list list \<Rightarrow> jsstring \<Rightarrow> bool" where
  "rx_test r [] = (case match_alt r [] of Some n \<Rightarrow> True | None \<Rightarrow> False)"
| "rx_test r (c # cs) = (case match_alt r (c # cs) of Some n \<Rightarrow> True | None \<Rightarrow> rx_test r cs)"

text \<open>A literal, with and without the \<^verbatim>\<open>i\<close> flag.\<close>

definition lit :: "jsstring \<Rightarrow> atom list" where
  "lit p = map (\<lambda>x. One (\<lambda>c. c = x)) p"

definition lit_i :: "jsstring \<Rightarrow> atom list" where
  "lit_i p = map (\<lambda>x. One (\<lambda>c. canonicalize c = canonicalize x)) p"

text \<open>\<^verbatim>\<open>/##|<h2/gi\<close>\<close>

definition rx_h2 :: "atom list list" where
  "rx_h2 = [lit_i (js ''##''), lit_i (js ''<h2'')]"

text \<open>\<^verbatim>\<open>/\[([^\]]+)\]\(([^)]+)\)/g\<close>\<close>

definition rx_markdownLink :: "atom list list" where
  "rx_markdownLink =
     [lit (js ''['') @ [Plus (\<lambda>c. c \<noteq> 0x5D)] @ lit (js '']('') @ [Plus (\<lambda>c. c \<noteq> 0x29)]
        @ lit (js '')'')]"

text \<open>\<^verbatim>\<open>/https?:\/\/[^\s<>"]+/gi\<close>\<close>

definition rx_plainUrl :: "atom list list" where
  "rx_plainUrl =
     [lit_i (js ''http'') @ [Opt (\<lambda>c. canonicalize c = canonicalize 0x73)] @ lit_i (js ''://'')
        @ [Plus (\<lambda>c. \<not> is_space c \<and> c \<noteq> 0x3C \<and> c \<noteq> 0x3E \<and> c \<noteq> 0x22)]]"

text \<open>\<^verbatim>\<open>/<a[^>]+href/gi\<close>\<close>

definition rx_htmlLink :: "atom list list" where
  "rx_htmlLink = [lit_i (js ''<a'') @ [Plus (\<lambda>c. c \<noteq> 0x3E)] @ lit_i (js ''href'')]"

text \<open>\<^verbatim>\<open>/(faq|ofte stillede sp\<close>U+00F8\<^verbatim>\<open>rgsm\<close>U+00E5\<^verbatim>\<open>l|sp\<close>U+00F8\<^verbatim>\<open>rgsm\<close>U+00E5\<^verbatim>\<open>l og svar|q&a|questions)/i\<close>\<close>

definition spoergsmaal :: jsstring where
  "spoergsmaal = js ''sp'' @ [0xF8] @ js ''rgsm'' @ [0xE5] @ js ''l''"

definition rx_faq :: "atom list list" where
  "rx_faq =
     [lit_i (js ''faq''),
      lit_i (js ''ofte stillede '' @ spoergsmaal),
      lit_i (spoergsmaal @ js '' og svar''),
      lit_i (js ''q&a''),
      lit_i (js ''questions'')]"

subsection \<open>Data model\<close>

record SeoInput =
  url :: jsstring
  competitorUrls :: "jsstring list"
  targetKeyword :: jsstring
  semanticKeywords :: "jsstring list"
  pageTitle :: jsstring
  metaDescription :: jsstring
  h1 :: jsstring
  bodyContent :: jsstring
  wordCount :: "int option"
  internalLinks :: "int option"
  h2Count :: "int option"

datatype KeywordStatus = God | Optimer | Mangler

record KeywordResult =
  keyword :: jsstring
  status :: KeywordStatus
  currentCount :: nat
  recommendedMin :: nat
  recommendedMax :: nat

datatype RecStatus = Ok | Warn | Error

record RecommendationItem =
  rec_id :: jsstring
  rec_label :: jsstring
  rec_status :: RecStatus
  rec_statusLabel :: jsstring

record ContentGap =
  gap_num :: jsstring
  gap_tag :: jsstring
  gap_title :: jsstring
  gap_description :: jsstring
  gap_color :: jsstring

datatype Priority = Red | Yellow | Green

record QuickWin =
  priority :: Priority
  title :: jsstring
  detail :: jsstring

record SeoResult =
  score :: int
  maxScore :: int
  percentage :: int
  keywords_out :: "KeywordResult list"
  recommendations :: "RecommendationItem list"
  contentGaps :: "ContentGap list"
  quickWins :: "QuickWin list"
  wordCount_out :: int
  keywordsFound :: nat
  keywordsMissing :: nat
  keywordsOptimise :: nat

subsection \<open>Occurrence counting and the merged text\<close>

text \<open>
  \<^verbatim>\<open>countOccurrences\<close> escapes every metacharacter of the keyword, so the regular
  expression it builds is the literal lower-cased keyword, matched globally without the
  \<^verbatim>\<open>i\<close> flag in the lower-cased text.
\<close>

definition countOccurrences :: "jsstring \<Rightarrow> jsstring \<Rightarrow> nat" where
  "countOccurrences txt kw =
     (if txt = [] \<or> kw = [] then 0
      else match_count [lit (toLowerCase kw)] (toLowerCase txt))"

definition fullText :: "SeoInput \<Rightarrow> jsstring" where
  "fullText input =
     toLowerCase (join (js '' '') [pageTitle input, metaDescription input, h1 input, bodyContent input])"

definition allKeywords :: "SeoInput \<Rightarrow> jsstring list" where
  "allKeywords input = filter (\<lambda>k. k \<noteq> []) (targetKeyword input # semanticKeywords input)"

definition wordCount_of :: "SeoInput \<Rightarrow> int" where
  "wordCount_of input =
     (case wordCount input of
        Some w \<Rightarrow> w
      | None \<Rightarrow> int (length (filter (\<lambda>t. t \<noteq> []) (split_ws False [] (bodyContent input)))))"

subsection \<open>Score components\<close>

definition titleHasKeyword :: "SeoInput \<Rightarrow> bool" where
  "titleHasKeyword input =
     js_includes (toLowerCase (pageTitle input)) (toLowerCase (targetKeyword input))"

definition titleGoodLength :: "SeoInput \<Rightarrow> bool" where
  "titleGoodLength input = (length (pageTitle input) \<ge> 30 \<and> length (pageTitle input) \<le> 65)"

definition points_title :: "SeoInput \<Rightarrow> int" where
  "points_title input =
     (if titleHasKeyword input then 10 else 0) + (if titleGoodLength input then 5 else 0)"

definition metaHasKeyword :: "SeoInput \<Rightarrow> bool" where
  "metaHasKeyword input =
     js_includes (toLowerCase (metaDescription input)) (toLowerCase (targetKeyword input))"

definition metaGoodLength :: "SeoInput \<Rightarrow> bool" where
  "metaGoodLength input =
     (length (metaDescription input) \<ge> 120 \<and> length (metaDescription input) \<le> 160)"

definition points_meta :: "SeoInput \<Rightarrow> int" where
  "points_meta input =
     (if metaHasKeyword input then 8 else 0) + (if metaGoodLength input then 7 else 0)"

definition h1HasKeyword :: "SeoInput \<Rightarrow> bool" where
  "h1HasKeyword input = js_includes (toLowerCase (h1 input)) (toLowerCase (targetKeyword input))"

definition h1Present :: "SeoInput \<Rightarrow> bool" where
  "h1Present input = (length (h1 input) > 0)"

definition points_h1 :: "SeoInput \<Rightarrow> int" where
  "points_h1 input = (if h1Present input then 5 else 0) + (if h1HasKeyword input then 5 else 0)"

definition points_length :: "SeoInput \<Rightarrow> int" where
  "points_length input =
     (if wordCount_of input \<ge> 800 then 20
      else if wordCount_of input \<ge> 500 then 14
      else if wordCount_of input \<ge> 300 then 8
      else if wordCount_of input \<ge> 150 then 4
      else 0)"

definition targetCount :: "SeoInput \<Rightarrow> nat" where
  "targetCount input = countOccurrences (fullText input) (targetKeyword input)"

definition points_density :: "SeoInput \<Rightarrow> int" where
  "points_density input =
     (if targetCount input \<ge> 6 then 15
      else if targetCount input \<ge> 4 then 10
      else if targetCount input \<ge> 2 then 5
      else if targetCount input \<ge> 1 then 2
      else 0)"

definition Math_round :: "real \<Rightarrow> int" where
  "Math_round x = \<lfloor>x + 1 / 2\<rfloor>"

definition semanticCovered :: "SeoInput \<Rightarrow> nat" where
  "semanticCovered input =
     length (filter (\<lambda>kw. countOccurrences (fullText input) kw \<ge> 1) (semanticKeywords input))"

definition semanticTotal :: "SeoInput \<Rightarrow> nat" where
  "semanticTotal input =
     (if length (semanticKeywords input) = 0 then 1 else length (semanticKeywords input))"

definition semanticRatio :: "SeoInput \<Rightarrow> real" where
  "semanticRatio input = real (semanticCovered input) / real (semanticTotal input)"

definition points_semantic :: "SeoInput \<Rightarrow> int" where
  "points_semantic input = Math_round (semanticRatio input * 15)"

definition h2Count_of :: "SeoInput \<Rightarrow> int" where
  "h2Count_of input =
     (case h2Count input of
        Some h \<Rightarrow> h
      | None \<Rightarrow> int (match_count rx_h2 (bodyContent input)))"

definition points_subheadings :: "SeoInput \<Rightarrow> int" where
  "points_subheadings input =
     (if h2Count_of input \<ge> 2 then 5 else if h2Count_of input \<ge> 1 then 3 else 0)"

text \<open>The link count detected from the content (the body of
  \<^verbatim>\<open>if (internalLinks === 0) { ... }\<close>).\<close>

definition detectedLinks :: "SeoInput \<Rightarrow> int" where
  "detectedLinks input =
     (let allContent = bodyContent input @ js '' '' @ pageTitle input @ js '' '' @ metaDescription input;
          markdownLinks = match_count rx_markdownLink allContent;
          plainUrls = match_count rx_plainUrl allContent;
          htmlLinks = match_count rx_htmlLink allContent
      in int (markdownLinks + plainUrls + htmlLinks))"

definition internalLinks_of :: "SeoInput \<Rightarrow> int" where
  "internalLinks_of input =
     (let n = (case internalLinks input of Some l \<Rightarrow> l | None \<Rightarrow> 0)
      in if n = 0 then detectedLinks input else n)"

definition points_links :: "SeoInput \<Rightarrow> int" where
  "points_links input = (if internalLinks_of input \<ge> 1 then 5 else 0)"

definition score_of :: "SeoInput \<Rightarrow> int" where
  "score_of input =
     0 + points_title input + points_meta input + points_h1 input + points_length input
       + points_density input + points_semantic input + points_subheadings input
       + points_links input"

definition percentage_of :: "SeoInput \<Rightarrow> int" where
  "percentage_of input = min (Math_round (real_of_int (score_of input))) 100"

subsection \<open>Keyword table\<close>

definition keywordResult :: "SeoInput \<Rightarrow> jsstring \<Rightarrow> KeywordResult" where
  "keywordResult input kw =
     (let count = countOccurrences (fullText input) kw;
          isTarget = (kw = targetKeyword input);
          recMin = (if isTarget then 5 else 2);
          recMax = (if isTarget then 9 else 4);
          st = (if count = 0 then Mangler else if count < recMin then Optimer else God)
      in \<lparr>keyword = kw, status = st, currentCount = count,
          recommendedMin = recMin, recommendedMax = recMax\<rparr>)"

definition keywordResults :: "SeoInput \<Rightarrow> KeywordResult list" where
  "keywordResults input = map (keywordResult input) (allKeywords input)"

definition missingKeywords :: "SeoInput \<Rightarrow> jsstring list" where
  "missingKeywords input =
     map keyword (filter (\<lambda>k. status k = Mangler) (keywordResults input))"

subsection \<open>Recommendations\<close>

text \<open>The FAQ detector as the recommendation list evaluates it (the function
  expressions of the \<^verbatim>\<open>faq\<close> item).\<close>

definition rec_hasFaq :: "SeoInput \<Rightarrow> bool" where
  "rec_hasFaq input =
     (let allText = toLowerCase (bodyContent input @ h1 input @ pageTitle input);
          cleanText = filter (\<lambda>c. c \<noteq> 0x5F \<and> c \<noteq> 0x2A \<and> c \<noteq> 0x23) allText
      in rx_test rx_faq cleanText)"

definition recommendations_of :: "SeoInput \<Rightarrow> RecommendationItem list" where
  "recommendations_of input =
     [\<lparr>rec_id = js ''title'', rec_label = js ''Title Tag'',
       rec_status = (if titleHasKeyword input \<and> titleGoodLength input then Ok
                     else if titleHasKeyword input then Warn else Error),
       rec_statusLabel = (if titleHasKeyword input \<and> titleGoodLength input then js ''Optimised''
                          else if titleHasKeyword input then js ''1 advarsel'' else js ''1 fejl'')\<rparr>,
      \<lparr>rec_id = js ''h1'', rec_label = js ''H1'',
       rec_status = (if h1HasKeyword input then Ok else if h1Present input then Warn else Error),
       rec_statusLabel = (if h1HasKeyword input then js ''Optimised''
                          else if h1Present input then js ''1 advarsel'' else js ''1 fejl'')\<rparr>,
      \<lparr>rec_id = js ''subheadings'', rec_label = js ''Subheadings'',
       rec_status = (if h2Count_of input \<ge> 2 then Ok
                     else if h2Count_of input \<ge> 1 then Warn else Error),
       rec_statusLabel = (if h2Count_of input \<ge> 2 then js ''Optimised''
                          else number_to_string (h2Count_of input) @ js '' fundet'')\<rparr>,
      \<lparr>rec_id = js ''content'', rec_label = js ''Content Length'',
       rec_status = (if wordCount_of input \<ge> 500 then Ok
                     else if wordCount_of input \<ge> 300 then Warn else Error),
       rec_statusLabel = (if wordCount_of input \<ge> 500 then js ''Optimised'' else js ''1 fejl'')\<rparr>,
      \<lparr>rec_id = js ''links'', rec_label = js ''Internal Links'',
       rec_status = (if internalLinks_of input \<ge> 1 then Ok else Error),
       rec_statusLabel = (if internalLinks_of input \<ge> 1 then js ''Optimised'' else js ''0 fundet'')\<rparr>,
      \<lparr>rec_id = js ''meta'', rec_label = js ''Meta Description'',
       rec_status = (if metaHasKeyword input \<and> metaGoodLength input then Ok
                     else if metaHasKeyword input then Warn else Error),
       rec_statusLabel = (if metaHasKeyword input \<and> metaGoodLength input then js ''Optimised''
                          else js ''1 fejl'')\<rparr>,
      \<lparr>rec_id = js ''faq'', rec_label = js ''FAQ Section'',
       rec_status = (if rec_hasFaq input then Ok else Warn),
       rec_statusLabel = (if rec_hasFaq input then js ''Optimised'' else js ''1 advarsel'')\<rparr>]"

subsection \<open>Content gaps\<close>

text \<open>The three texts of the missing-keywords gap and the two of the content-length gap;
  \<open>0xE5\<close>, \<open>0xE6\<close>, \<open>0xE9\<close>, \<open>0xF8\<close> are the letters a-ring, ae, e-acute and o-slash,
  \<open>0xB7\<close> the middle dot, \<open>0x2013\<close> the en dash, \<open>0x27\<close> the apostrophe.\<close>

definition gap1_description :: "int \<Rightarrow> jsstring" where
  "gap1_description wc =
     (if wc < 500
      then js ''Med kun ~'' @ number_to_string wc
           @ js '' ord er siden for tyndt indholdsalt. Konkurrenter har typisk 600'' @ [0x2013]
           @ js ''1000+ ord p'' @ [0xE5] @ js '' tilsvarende kategorisider.''
      else js ''Siden har '' @ number_to_string wc
           @ js '' ord. Overvej at uddybe med produktspecifikke detaljer og FAQ for at styrke autoriteten.'')"

definition gap2_title :: "jsstring list \<Rightarrow> jsstring" where
  "gap2_title missing =
     (if length missing > 0 then number_to_string (int (length missing)) @ js '' keywords mangler''
      else js ''Semantisk d'' @ [0xE6] @ js ''kning'')"

definition gap2_description :: "jsstring list \<Rightarrow> jsstring" where
  "gap2_description missing =
     (if length missing > 0
      then js ''Disse keywords er ikke fundet p'' @ [0xE5] @ js '' siden: ''
           @ join (js '', '') (take 4 missing)
           @ (if length missing > 4 then js '' m.fl.'' else [])
           @ js ''. Inklud'' @ [0xE9] @ js ''r dem naturligt i br'' @ [0xF8]
           @ js ''dtekst og overskrifter.''
      else js ''Alle semantiske keywords er d'' @ [0xE6]
           @ js ''kket. Overvej yderligere long-tail varianter for at fange mere trafik.''
           @ [0x27] @ js '','')"

definition contentGaps_of :: "SeoInput \<Rightarrow> ContentGap list" where
  "contentGaps_of input =
     [\<lparr>gap_num = js ''Gap 01 '' @ [0xB7] @ js '' Indholdsl'' @ [0xE6] @ js ''ngde'',
       gap_tag = js ''#4f7fff'',
       gap_title = (if wordCount_of input < 500 then js ''Siden er for kort''
                    else js ''Indholdsdybde''),
       gap_description = gap1_description (wordCount_of input),
       gap_color = js ''#4f7fff''\<rparr>,
      \<lparr>gap_num = js ''Gap 02 '' @ [0xB7] @ js '' Manglende keywords'',
       gap_tag = js ''#ff7043'',
       gap_title = gap2_title (missingKeywords input),
       gap_description = gap2_description (missingKeywords input),
       gap_color = js ''#ff7043''\<rparr>,
      \<lparr>gap_num = js ''Gap 03 '' @ [0xB7] @ js '' Strukturerede data'',
       gap_tag = js ''#2dce89'',
       gap_title = js ''FAQ + JSON-LD mangler'',
       gap_description =
         js ''Siden mangler sandsynligvis FAQ-sektion med JSON-LD structured data. Dette trigger rich snippets i Google og ''
         @ [0xF8] @ js ''ger CTR markant for B2B-s'' @ [0xF8] @ js ''gninger.'',
       gap_color = js ''#2dce89''\<rparr>]"

subsection \<open>Quick wins\<close>

definition qw_meta :: "SeoInput \<Rightarrow> QuickWin" where
  "qw_meta input =
     \<lparr>priority = Red,
      title = js ''Opdat'' @ [0xE9] @ js ''r meta description'',
      detail = js ''Tilf'' @ [0xF8] @ js ''j '' @ [0x22] @ targetKeyword input @ [0x22] @ js '' og ''
               @ join (js '', '') (take 2 (missingKeywords input))
               @ js '' til meta beskrivelsen. Direkte CTR-effekt i SERP.''\<rparr>"

definition qw_content :: "SeoInput \<Rightarrow> QuickWin" where
  "qw_content input =
     \<lparr>priority = Red,
      title = js ''Tilf'' @ [0xF8] @ js ''j mere indhold (~300 ord)'',
      detail = js ''Siden har kun '' @ number_to_string (wordCount_of input)
               @ js '' ord. Skriv et nyt afsnit der naturligt inkluderer de manglende keywords.''\<rparr>"

definition qw_keywords :: "SeoInput \<Rightarrow> QuickWin" where
  "qw_keywords input =
     \<lparr>priority = Yellow,
      title = js ''Inklud'' @ [0xE9] @ js ''r manglende semantiske keywords'',
      detail = js ''Brug '' @ join (js '', '') (take 3 (missingKeywords input))
               @ js '' naturligt i br'' @ [0xF8] @ js ''dtekst, produktbeskrivelser eller FAQ.''\<rparr>"

definition qw_faq :: QuickWin where
  "qw_faq =
     \<lparr>priority = Yellow,
      title = js ''Tilf'' @ [0xF8] @ js ''j FAQ-sektion med JSON-LD'',
      detail = js ''3'' @ [0x2013] @ js ''5 sp'' @ [0xF8] @ js ''rgsm'' @ [0xE5]
               @ js ''l og svar trigger rich snippets i Google og '' @ [0xF8]
               @ js ''ger synlighed uden link-building.''\<rparr>"

definition qw_links :: QuickWin where
  "qw_links =
     \<lparr>priority = Green,
      title = js ''Byg interne links fra relaterede sider'',
      detail = js ''Link til denne side fra relaterede kategorier med naturlige ankertekster der inkluderer target keyword.''\<rparr>"

text \<open>The FAQ detector as the quick-win list evaluates it.\<close>

definition hasFaq :: "SeoInput \<Rightarrow> bool" where
  "hasFaq input =
     (let allText = toLowerCase (bodyContent input @ h1 input @ pageTitle input);
          cleanText = filter (\<lambda>c. c \<noteq> 0x5F \<and> c \<noteq> 0x2A \<and> c \<noteq> 0x23) allText
      in rx_test rx_faq cleanText)"

text \<open>\<^verbatim>\<open>quickWins\<close> starts empty and each \<^verbatim>\<open>if\<close> pushes one item at its end.\<close>

definition quickWins_of :: "SeoInput \<Rightarrow> QuickWin list" where
  "quickWins_of input =
     (let qw0 = [];
          qw1 = (if \<not> metaHasKeyword input \<or> \<not> metaGoodLength input
                 then qw0 @ [qw_meta input] else qw0);
          qw2 = (if wordCount_of input < 500 then qw1 @ [qw_content input] else qw1);
          qw3 = (if length (missingKeywords input) > 0 then qw2 @ [qw_keywords input] else qw2);
          qw4 = (if \<not> hasFaq input then qw3 @ [qw_faq] else qw3);
          qw5 = (if internalLinks_of input < 3 then qw4 @ [qw_links] else qw4)
      in qw5)"

subsection \<open>The engine\<close>

definition analyzeSeo :: "SeoInput \<Rightarrow> SeoResult" where
  "analyzeSeo input =
     \<lparr>score = score_of input,
      maxScore = 100,
      percentage = percentage_of input,
      keywords_out = keywordResults input,
      recommendations = recommendations_of input,
      contentGaps = contentGaps_of input,
      quickWins = quickWins_of input,
      wordCount_out = wordCount_of input,
      keywordsFound = length (filter (\<lambda>k. status k = God) (keywordResults input)),
      keywordsMissing = length (filter (\<lambda>k. status k = Mangler) (keywordResults input)),
      keywordsOptimise = length (filter (\<lambda>k. status k = Optimer) (keywordResults input))\<rparr>"

section \<open>Example inputs\<close>

definition ex_shoes :: SeoInput where
  "ex_shoes =
     \<lparr>url = js ''https://example.com/shoes'', competitorUrls = [],
      targetKeyword = js ''red shoes'', semanticKeywords = [],
      pageTitle = js ''Buy Red Shoes Online Today Fast'',
      metaDescription = js ''Red shoes for every season.'',
      h1 = js ''Red Shoes'',
      bodyContent = js ''We sell red shoes. FAQ: see https://example.com/faq'',
      wordCount = None, internalLinks = Some 0, h2Count = None\<rparr>"

definition ex_empty_target :: SeoInput where
  "ex_empty_target =
     \<lparr>url = js ''https://example.com/guide'', competitorUrls = [],
      targetKeyword = [], semanticKeywords = [js ''links''],
      pageTitle = js ''Search engine optimisation guide for beginners'',
      metaDescription = js ''A practical guide to search engine optimisation: keywords, headings, links and content length explained for small web shops.'',
      h1 = js ''Guide'',
      bodyContent = js ''## Intro'',
      wordCount = Some 800, internalLinks = Some 1, h2Count = Some 2\<rparr>"

definition ex_blank_keyword :: SeoInput where
  "ex_blank_keyword =
     \<lparr>url = [], competitorUrls = [],
      targetKeyword = js ''seo'', semanticKeywords = [js '' '', js ''links''],
      pageTitle = js ''SEO'', metaDescription = [], h1 = [],
      bodyContent = js ''seo and more seo'',
      wordCount = None, internalLinks = None, h2Count = None\<rparr>"

definition ex_dup_keyword :: SeoInput where
  "ex_dup_keyword =
     \<lparr>url = [], competitorUrls = [],
      targetKeyword = js ''seo'', semanticKeywords = [js ''seo''],
      pageTitle = js ''SEO'', metaDescription = [], h1 = [],
      bodyContent = js ''seo and more seo'',
      wordCount = None, internalLinks = None, h2Count = None\<rparr>"

definition ex_absent_target :: SeoInput where
  "ex_absent_target =
     \<lparr>url = [], competitorUrls = [],
      targetKeyword = js ''boots'', semanticKeywords = [js ''shoes''],
      pageTitle = js ''Shoes'', metaDescription = [], h1 = [],
      bodyContent = js ''We sell red shoes.'',
      wordCount = None, internalLinks = None, h2Count = None\<rparr>"

definition ex_many_missing :: SeoInput where
  "ex_many_missing =
     \<lparr>url = [], competitorUrls = [],
      targetKeyword = js ''boots'',
      semanticKeywords = [js ''lace'', js ''shoes'', js ''sole'', js ''heel'', js ''suede''],
      pageTitle = js ''Shoes'', metaDescription = [], h1 = [],
      bodyContent = js ''We sell red shoes.'',
      wordCount = None, internalLinks = None, h2Count = None\<rparr>"

definition ex_scraped :: SeoInput where
  "ex_scraped =
     \<lparr>url = [], competitorUrls = [],
      targetKeyword = js ''seo'', semanticKeywords = [],
      pageTitle = js ''SEO'', metaDescription = [], h1 = [],
      bodyContent = js ''## One ## Two ## Three'',
      wordCount = Some 1200, internalLinks = Some 7, h2Count = Some 1\<rparr>"

text \<open>The keyword count as the specification words it: the target keyword and every
  semantic keyword that is neither empty nor made of white space only.\<close>

definition spec_keywordCount :: "SeoInput \<Rightarrow> nat" where
  "spec_keywordCount input =
     1 + length (filter (\<lambda>k. \<not> list_all is_space k) (semanticKeywords input))"

section \<open>Auxiliary facts\<close>

lemmas string_defs = js_def toLowerCase_def toLowerCase_unit_def canonicalize_def starts_with_def
  number_to_string_def is_space_def lit_def lit_i_def

lemmas rx_defs = rx_h2_def rx_markdownLink_def rx_plainUrl_def rx_htmlLink_def rx_faq_def
  spoergsmaal_def

lemmas flag_defs = titleHasKeyword_def titleGoodLength_def metaHasKeyword_def metaGoodLength_def
  h1HasKeyword_def h1Present_def

lemmas points_defs = points_title_def points_meta_def points_h1_def points_length_def
  points_density_def points_semantic_def points_subheadings_def points_links_def

lemmas count_defs = wordCount_of_def h2Count_of_def internalLinks_of_def detectedLinks_def
  targetCount_def countOccurrences_def fullText_def semanticCovered_def semanticTotal_def
  semanticRatio_def Math_round_def

subsection \<open>The keyword table and the missing keywords\<close>

lemma status_keywordResult:
  "status (keywordResult input kw) = Mangler \<longleftrightarrow> countOccurrences (fullText input) kw = 0"
  by (simp add: keywordResult_def Let_def)

lemma keyword_keywordResult: "keyword (keywordResult input kw) = kw"
  by (simp add: keywordResult_def Let_def)

lemma missingKeywords_filter:
  "missingKeywords input =
     filter (\<lambda>k. countOccurrences (fullText input) k = 0) (allKeywords input)"
  by (simp add: missingKeywords_def keywordResults_def filter_map comp_def status_keywordResult
      keyword_keywordResult)

lemma missing_iff_Mangler:
  "length (missingKeywords input) > 0 \<longleftrightarrow> (\<exists>k \<in> set (keywordResults input). status k = Mangler)"
  by (simp add: missingKeywords_def filter_empty_conv)

lemma countOccurrences_empty: "countOccurrences txt [] = 0"
  by (simp add: countOccurrences_def)

subsection \<open>Bounds of the eight score components\<close>

lemma Math_round_of_int: "Math_round (real_of_int n) = n"
  unfolding Math_round_def by linarith

lemma semanticCovered_le: "semanticCovered input \<le> semanticTotal input"
  unfolding semanticCovered_def semanticTotal_def
  using length_filter_le [of _ "semanticKeywords input"] by (auto simp: le_Suc_eq)

lemma points_semantic_bounds: "0 \<le> points_semantic input \<and> points_semantic input \<le> 15"
proof -
  have pos: "0 < semanticTotal input" by (simp add: semanticTotal_def)
  have r0: "0 \<le> semanticRatio input" by (simp add: semanticRatio_def)
  have r1: "semanticRatio input \<le> 1"
    using semanticCovered_le [of input] pos by (simp add: semanticRatio_def)
  have "0 \<le> semanticRatio input * 15 + 1 / 2" using r0 by simp
  moreover have "semanticRatio input * 15 + 1 / 2 < 16" using r1 by simp
  ultimately show ?thesis
    unfolding points_semantic_def Math_round_def by (simp add: floor_less_iff le_floor_iff)
qed

lemma points_title_bounds: "0 \<le> points_title input \<and> points_title input \<le> 15"
  by (simp add: points_title_def)

lemma points_meta_bounds: "0 \<le> points_meta input \<and> points_meta input \<le> 15"
  by (simp add: points_meta_def)

lemma points_h1_bounds: "0 \<le> points_h1 input \<and> points_h1 input \<le> 10"
  by (simp add: points_h1_def)

lemma points_length_bounds: "0 \<le> points_length input \<and> points_length input \<le> 20"
  by (simp add: points_length_def)

lemma points_density_bounds: "0 \<le> points_density input \<and> points_density input \<le> 15"
  by (simp add: points_density_def)

lemma points_subheadings_bounds:
  "0 \<le> points_subheadings input \<and> points_subheadings input \<le> 5"
  by (simp add: points_subheadings_def)

lemma points_links_bounds: "0 \<le> points_links input \<and> points_links input \<le> 5"
  by (simp add: points_links_def)

lemma score_of_bounds: "0 \<le> score_of input \<and> score_of input \<le> 100"
  using points_title_bounds [of input] points_meta_bounds [of input] points_h1_bounds [of input]
    points_length_bounds [of input] points_density_bounds [of input]
    points_semantic_bounds [of input] points_subheadings_bounds [of input]
    points_links_bounds [of input]
  unfolding score_of_def by linarith

lemma points_density_empty: "targetKeyword input = [] \<Longrightarrow> points_density input = 0"
  by (simp add: points_density_def targetCount_def countOccurrences_empty)

subsection \<open>The FAQ detector finds the word\<close>

lemma js_includes_split: "js_includes s p \<Longrightarrow> \<exists>a b. s = a @ p @ b"
proof (induction s)
  case Nil
  then show ?case by simp
next
  case (Cons c cs)
  show ?case
  proof (cases "starts_with p (c # cs)")
    case True
    then have "c # cs = [] @ p @ drop (length p) (c # cs)"
      unfolding starts_with_def by (metis append_Nil append_take_drop_id)
    then show ?thesis by blast
  next
    case False
    with Cons.prems have "js_includes cs p" by simp
    then obtain a b where "cs = a @ p @ b" using Cons.IH by blast
    then have "c # cs = (c # a) @ p @ b" by simp
    then show ?thesis by blast
  qed
qed

lemma rx_test_faq: "rx_test rx_faq (u @ js ''faq'' @ v)"
proof (induction u)
  case Nil
  show ?case by (simp add: rx_faq_def lit_i_def js_def)
next
  case (Cons c u)
  then show ?case by (simp split: option.split)
qed

lemma clean_lower_FAQ:
  "filter (\<lambda>c. c \<noteq> 0x5F \<and> c \<noteq> 0x2A \<and> c \<noteq> 0x23) (toLowerCase (a @ js ''FAQ'' @ b)) =
     filter (\<lambda>c. c \<noteq> 0x5F \<and> c \<noteq> 0x2A \<and> c \<noteq> 0x23) (toLowerCase a) @ js ''faq''
       @ filter (\<lambda>c. c \<noteq> 0x5F \<and> c \<noteq> 0x2A \<and> c \<noteq> 0x23) (toLowerCase b)"
  by (simp add: toLowerCase_def toLowerCase_unit_def js_def)

lemma hasFaq_of_word:
  assumes "js_includes (bodyContent input) (js ''FAQ'')"
  shows "hasFaq input"
proof -
  obtain a b where "bodyContent input = a @ js ''FAQ'' @ b"
    using js_includes_split [OF assms] by blast
  then have "bodyContent input @ h1 input @ pageTitle input
      = a @ js ''FAQ'' @ (b @ h1 input @ pageTitle input)" by simp
  then show ?thesis
    unfolding hasFaq_def Let_def by (simp only: clean_lower_FAQ rx_test_faq)
qed

lemma qw_faq_in_quickWins: "qw_faq \<in> set (quickWins_of input) \<longleftrightarrow> \<not> hasFaq input"
  by (auto simp: quickWins_of_def Let_def qw_faq_def qw_meta_def qw_content_def qw_keywords_def
      qw_links_def js_def)

section \<open>The claims\<close>

subsection \<open>C1: no semantic keywords\<close>

text \<open>
  C1, as the specification states it: when \<^verbatim>\<open>semanticKeywords\<close> is empty, the
  semantic-coverage factor awards its full 15 points. On the input \<open>ex_shoes\<close>, which
  has no semantic keyword, the factor is not 15.
\<close>

theorem C1_full_credit_counterexample:
  "semanticKeywords ex_shoes = [] \<and> points_semantic ex_shoes \<noteq> 15"
  by (simp add: ex_shoes_def points_semantic_def count_defs)

text \<open>
  C1, amended: when \<^verbatim>\<open>semanticKeywords\<close> is empty, the denominator
  \<^verbatim>\<open>semanticTotal\<close> defaults to 1, the number of covered keywords is 0, and the
  semantic-coverage factor contributes 0 points.
\<close>

theorem C1_semantic_empty:
  "semanticKeywords input = [] \<Longrightarrow>
     semanticTotal input = 1 \<and> semanticCovered input = 0 \<and> points_semantic input = 0"
  by (simp add: semanticTotal_def semanticCovered_def points_semantic_def semanticRatio_def
      Math_round_def)

theorem C1_semantic_empty_witness:
  "semanticKeywords ex_shoes = [] \<and> semanticTotal ex_shoes = 1 \<and> semanticCovered ex_shoes = 0
   \<and> points_semantic ex_shoes = 0"
proof -
  have h: "semanticKeywords ex_shoes = []" by (simp add: ex_shoes_def)
  from C1_semantic_empty [OF h] h show ?thesis by simp
qed

subsection \<open>C2: empty target keyword\<close>

text \<open>
  C2, as the specification states it: when \<^verbatim>\<open>targetKeyword\<close> is the empty string, whatever
  the other fields are, the total score is near zero. On the input \<open>ex_empty_target\<close> the
  target keyword is empty and the score is 85 of 100.
\<close>

theorem C2_near_zero_counterexample:
  "targetKeyword ex_empty_target = [] \<and> score (analyzeSeo ex_empty_target) = 85"
  by (simp add: analyzeSeo_def score_of_def ex_empty_target_def points_defs flag_defs count_defs
      string_defs)

text \<open>
  C2, amended: when \<^verbatim>\<open>targetKeyword\<close> is the empty string the engine returns its report
  (the model is a total function), the target-keyword density factor contributes 0
  points, and the total score lies between 0 and 85; the factors that do not read the
  keyword are scored as for any other input, so the total need not be near zero.
\<close>

theorem C2_empty_target:
  "targetKeyword input = [] \<Longrightarrow>
     points_density input = 0 \<and> 0 \<le> score (analyzeSeo input) \<and> score (analyzeSeo input) \<le> 85"
  using points_title_bounds [of input] points_meta_bounds [of input] points_h1_bounds [of input]
    points_length_bounds [of input] points_density_empty [of input]
    points_semantic_bounds [of input] points_subheadings_bounds [of input]
    points_links_bounds [of input]
  by (simp add: analyzeSeo_def score_of_def)

theorem C2_empty_target_witness:
  "targetKeyword ex_empty_target = [] \<and> points_density ex_empty_target = 0
   \<and> 0 \<le> score (analyzeSeo ex_empty_target) \<and> score (analyzeSeo ex_empty_target) \<le> 85"
proof -
  have h: "targetKeyword ex_empty_target = []" by (simp add: ex_empty_target_def)
  from C2_empty_target [OF h] h show ?thesis by simp
qed

subsection \<open>C3: overrides\<close>

text \<open>
  C3, as the specification states it: a supplied override is used and the heuristic
  detection is not applied; in particular a supplied internal-link count of 0 yields link
  count 0. The input \<open>ex_shoes\<close> supplies the internal-link count 0 and the engine works
  with the link count 1, detected from the URL in the body.
\<close>

theorem C3_link_zero_counterexample:
  "internalLinks ex_shoes = Some 0 \<and> internalLinks_of ex_shoes = 1"
  by (simp add: ex_shoes_def internalLinks_of_def detectedLinks_def string_defs rx_defs)

text \<open>
  C3, amended: a supplied word count and a supplied subheading count are used as they are
  (the word count is also the one returned), and a supplied internal-link count is used
  when it is not 0; a supplied internal-link count of 0 is treated like a missing one, and
  the link count is then the one detected from the content.
\<close>

theorem C3_overrides:
  "(wordCount input = Some w \<longrightarrow> wordCount_of input = w \<and> wordCount_out (analyzeSeo input) = w)
   \<and> (h2Count input = Some h \<longrightarrow> h2Count_of input = h)
   \<and> (internalLinks input = Some n \<and> n \<noteq> 0 \<longrightarrow> internalLinks_of input = n)
   \<and> (internalLinks input = Some 0 \<longrightarrow> internalLinks_of input = detectedLinks input)
   \<and> (internalLinks input = None \<longrightarrow> internalLinks_of input = detectedLinks input)"
  by (simp add: analyzeSeo_def wordCount_of_def h2Count_of_def internalLinks_of_def)

theorem C3_overrides_witness:
  "wordCount ex_scraped = Some 1200 \<and> wordCount_out (analyzeSeo ex_scraped) = 1200
   \<and> h2Count ex_scraped = Some 1 \<and> h2Count_of ex_scraped = 1
   \<and> match_count rx_h2 (bodyContent ex_scraped) = 3
   \<and> internalLinks ex_scraped = Some 7 \<and> internalLinks_of ex_scraped = 7
   \<and> internalLinks ex_shoes = Some 0 \<and> internalLinks_of ex_shoes = detectedLinks ex_shoes
   \<and> internalLinks ex_absent_target = None
   \<and> internalLinks_of ex_absent_target = detectedLinks ex_absent_target"
proof -
  have a: "wordCount ex_scraped = Some 1200" "h2Count ex_scraped = Some 1"
    "internalLinks ex_scraped = Some 7 \<and> (7::int) \<noteq> 0"
    by (simp_all add: ex_scraped_def)
  have b: "internalLinks ex_shoes = Some 0" by (simp add: ex_shoes_def)
  have c: "internalLinks ex_absent_target = None" by (simp add: ex_absent_target_def)
  have d: "match_count rx_h2 (bodyContent ex_scraped) = 3"
    by (simp add: ex_scraped_def string_defs rx_defs)
  from C3_overrides [of ex_scraped 1200 1 7] C3_overrides [of ex_shoes 0 0 0]
    C3_overrides [of ex_absent_target 0 0 0] a b c d
  show ?thesis by simp
qed

subsection \<open>C4: cardinality and order of the keyword table\<close>

text \<open>
  C4, as the specification states it: the keyword table has 1 + the number of semantic
  keywords that are neither empty nor white space only. The input \<open>ex_blank_keyword\<close> has
  the semantic keywords \<^verbatim>\<open>' '\<close> and \<^verbatim>\<open>'links'\<close>; the table has 3 records, the
  specification counts 2.
\<close>

theorem C4_cardinality_counterexample:
  "length (keywords_out (analyzeSeo ex_blank_keyword)) = 3
   \<and> spec_keywordCount ex_blank_keyword = 2"
  by (simp add: analyzeSeo_def keywordResults_def allKeywords_def spec_keywordCount_def
      ex_blank_keyword_def string_defs)

text \<open>
  C4, amended: the keywords of the table are the target keyword followed by the semantic
  keywords in their input order, without the entries that are the empty string (a white
  space only entry stays, and an empty target keyword is left out as well); so the table
  has one record for a non-empty target keyword plus one for each non-empty semantic
  keyword.
\<close>

theorem C4_keyword_list:
  "map keyword (keywords_out (analyzeSeo input))
     = filter (\<lambda>k. k \<noteq> []) (targetKeyword input # semanticKeywords input)
   \<and> length (keywords_out (analyzeSeo input))
     = (if targetKeyword input = [] then 0 else 1)
       + length (filter (\<lambda>k. k \<noteq> []) (semanticKeywords input))"
  by (simp add: analyzeSeo_def keywordResults_def allKeywords_def comp_def keyword_keywordResult)

theorem C4_keyword_list_witness:
  "map keyword (keywords_out (analyzeSeo ex_blank_keyword)) = [js ''seo'', js '' '', js ''links'']
   \<and> length (keywords_out (analyzeSeo ex_blank_keyword)) = 3"
  using C4_keyword_list [of ex_blank_keyword]
  by (simp add: ex_blank_keyword_def js_def)

subsection \<open>C5: recommended ranges and status of a keyword record\<close>

text \<open>
  C5, as the specification states it: every semantic keyword has the range [2,4]. The
  input \<open>ex_dup_keyword\<close> repeats the target keyword \<^verbatim>\<open>'seo'\<close> as its one semantic
  keyword; the record of that semantic keyword (the second of the table) has the range
  [5,9].
\<close>

theorem C5_range_counterexample:
  "semanticKeywords ex_dup_keyword = [js ''seo'']
   \<and> keyword (keywords_out (analyzeSeo ex_dup_keyword) ! 1) = js ''seo''
   \<and> recommendedMin (keywords_out (analyzeSeo ex_dup_keyword) ! 1) = 5
   \<and> recommendedMax (keywords_out (analyzeSeo ex_dup_keyword) ! 1) = 9"
  by (simp add: analyzeSeo_def keywordResults_def allKeywords_def keywordResult_def Let_def
      ex_dup_keyword_def js_def)

text \<open>
  C5, amended: a record whose keyword is the string of the target keyword has the range
  [5,9] (also when it comes from the semantic keyword list), every other record has the
  range [2,4]; and with the occurrence count \<open>c\<close> of the keyword in the merged text and the
  recommended minimum \<open>m\<close>, the status is Mangler (missing) when \<open>c = 0\<close>, Optimer (needs
  work) when \<open>0 < c < m\<close>, and God (covered) when \<open>c \<ge> m\<close>.
\<close>

theorem C5_keyword_record:
  "r \<in> set (keywords_out (analyzeSeo input)) \<Longrightarrow>
     currentCount r = countOccurrences (fullText input) (keyword r)
   \<and> (keyword r = targetKeyword input \<longrightarrow> recommendedMin r = 5 \<and> recommendedMax r = 9)
   \<and> (keyword r \<noteq> targetKeyword input \<longrightarrow> recommendedMin r = 2 \<and> recommendedMax r = 4)
   \<and> (currentCount r = 0 \<longrightarrow> status r = Mangler)
   \<and> (0 < currentCount r \<and> currentCount r < recommendedMin r \<longrightarrow> status r = Optimer)
   \<and> (currentCount r \<ge> recommendedMin r \<longrightarrow> status r = God)"
  by (auto simp: analyzeSeo_def keywordResults_def keywordResult_def Let_def split: if_splits)

theorem C5_keyword_record_witness:
  "map keyword (keywords_out (analyzeSeo ex_blank_keyword)) = [js ''seo'', js '' '', js ''links'']
   \<and> map currentCount (keywords_out (analyzeSeo ex_blank_keyword)) = [3, 6, 0]
   \<and> map recommendedMin (keywords_out (analyzeSeo ex_blank_keyword)) = [5, 2, 2]
   \<and> map recommendedMax (keywords_out (analyzeSeo ex_blank_keyword)) = [9, 4, 4]
   \<and> map status (keywords_out (analyzeSeo ex_blank_keyword)) = [Optimer, God, Mangler]"
proof -
  obtain r0 r1 r2 where e: "keywords_out (analyzeSeo ex_blank_keyword) = [r0, r1, r2]"
    by (simp add: analyzeSeo_def keywordResults_def allKeywords_def ex_blank_keyword_def js_def)
  have k: "map keyword (keywords_out (analyzeSeo ex_blank_keyword))
      = [js ''seo'', js '' '', js ''links'']"
    by (simp add: analyzeSeo_def keywordResults_def allKeywords_def keyword_keywordResult
        ex_blank_keyword_def js_def)
  have t: "targetKeyword ex_blank_keyword = js ''seo''"
    by (simp add: ex_blank_keyword_def)
  have c: "countOccurrences (fullText ex_blank_keyword) (js ''seo'') = 3"
    "countOccurrences (fullText ex_blank_keyword) (js '' '') = 6"
    "countOccurrences (fullText ex_blank_keyword) (js ''links'') = 0"
    by (simp_all add: ex_blank_keyword_def countOccurrences_def fullText_def string_defs)
  have n: "js '' '' \<noteq> js ''seo''" "js ''links'' \<noteq> js ''seo''"
    by (simp_all add: js_def)
  from k e have kw: "keyword r0 = js ''seo''" "keyword r1 = js '' ''" "keyword r2 = js ''links''"
    by simp_all
  have m: "r0 \<in> set (keywords_out (analyzeSeo ex_blank_keyword))"
    "r1 \<in> set (keywords_out (analyzeSeo ex_blank_keyword))"
    "r2 \<in> set (keywords_out (analyzeSeo ex_blank_keyword))"
    by (simp_all add: e)
  from C5_keyword_record [OF m(1)] kw(1) t c(1)
  have 0: "currentCount r0 = 3 \<and> recommendedMin r0 = 5 \<and> recommendedMax r0 = 9
      \<and> status r0 = Optimer"
    by simp
  from C5_keyword_record [OF m(2)] kw(2) t c(2) n(1)
  have 1: "currentCount r1 = 6 \<and> recommendedMin r1 = 2 \<and> recommendedMax r1 = 4
      \<and> status r1 = God"
    by simp
  from C5_keyword_record [OF m(3)] kw(3) t c(3) n(2)
  have 2: "currentCount r2 = 0 \<and> recommendedMin r2 = 2 \<and> recommendedMax r2 = 4
      \<and> status r2 = Mangler"
    by simp
  from k 0 1 2 show ?thesis unfolding e by simp
qed

subsection \<open>C6: bounds of the score and the percentage\<close>

text \<open>
  C6: the raw score is the sum of the eight factor contributions, it lies between 0 and
  100, and the returned percentage is \<open>min (round rawScore) 100\<close> (which is the score
  itself).
\<close>

theorem C6_score_bounds:
  "score (analyzeSeo input) =
     points_title input + points_meta input + points_h1 input + points_length input
       + points_density input + points_semantic input + points_subheadings input
       + points_links input
   \<and> 0 \<le> score (analyzeSeo input) \<and> score (analyzeSeo input) \<le> 100
   \<and> percentage (analyzeSeo input)
       = min (Math_round (real_of_int (score (analyzeSeo input)))) 100
   \<and> percentage (analyzeSeo input) = score (analyzeSeo input)"
proof -
  have s: "score (analyzeSeo input) = score_of input"
    and p: "percentage (analyzeSeo input) = percentage_of input"
    by (simp_all add: analyzeSeo_def)
  have "percentage_of input = min (score_of input) 100"
    by (simp only: percentage_of_def Math_round_of_int)
  with score_of_bounds [of input] show ?thesis
    unfolding s p by (simp add: percentage_of_def) (simp add: score_of_def)
qed

theorem C6_score_bounds_witness:
  "score (analyzeSeo ex_shoes) = 15 + 8 + 10 + 0 + 10 + 0 + 0 + 5
   \<and> percentage (analyzeSeo ex_shoes) = 48"
proof -
  have "points_title ex_shoes = 15" "points_meta ex_shoes = 8" "points_h1 ex_shoes = 10"
    by (simp_all add: ex_shoes_def points_defs flag_defs string_defs)
  moreover have "points_length ex_shoes = 0" "points_subheadings ex_shoes = 0"
    by (simp_all add: ex_shoes_def points_defs wordCount_of_def h2Count_of_def string_defs rx_defs)
  moreover have "points_density ex_shoes = 10" "points_semantic ex_shoes = 0"
    by (simp_all add: ex_shoes_def points_defs count_defs string_defs)
  moreover have "points_links ex_shoes = 5"
    by (simp add: ex_shoes_def points_defs internalLinks_of_def detectedLinks_def string_defs
        rx_defs)
  ultimately show ?thesis using C6_score_bounds [of ex_shoes] by (simp add: Math_round_def)
qed

subsection \<open>C7: the quick wins\<close>

text \<open>
  C7: the quick-win list is made by five checks in the fixed order (1) the meta
  description lacks the target keyword or its length is outside [120,160], (2) the word
  count is below 500, (3) some keyword record is missing, (4) no FAQ section is detected,
  (5) the link count is below 3. A check that holds appends its one item, of priority
  red (high), red, yellow (medium), yellow, green (low) in this order; a check that fails
  appends nothing.
\<close>

theorem C7_quick_wins:
  "quickWins (analyzeSeo input) =
     (if \<not> metaHasKeyword input \<or> length (metaDescription input) < 120
          \<or> length (metaDescription input) > 160
      then [qw_meta input] else [])
     @ (if wordCount_out (analyzeSeo input) < 500 then [qw_content input] else [])
     @ (if \<exists>k \<in> set (keywords_out (analyzeSeo input)). status k = Mangler
        then [qw_keywords input] else [])
     @ (if \<not> hasFaq input then [qw_faq] else [])
     @ (if internalLinks_of input < 3 then [qw_links] else [])
   \<and> priority (qw_meta input) = Red \<and> priority (qw_content input) = Red
   \<and> priority (qw_keywords input) = Yellow \<and> priority qw_faq = Yellow
   \<and> priority qw_links = Green
   \<and> length (quickWins (analyzeSeo input)) \<le> 5"
proof -
  have m: "(\<exists>k \<in> set (keywords_out (analyzeSeo input)). status k = Mangler)
      \<longleftrightarrow> length (missingKeywords input) > 0"
    using missing_iff_Mangler [of input] by (simp add: analyzeSeo_def)
  have g: "(\<not> metaHasKeyword input \<or> length (metaDescription input) < 120
          \<or> length (metaDescription input) > 160)
      \<longleftrightarrow> (\<not> metaHasKeyword input \<or> \<not> metaGoodLength input)"
    by (auto simp: metaGoodLength_def)
  have w: "wordCount_out (analyzeSeo input) = wordCount_of input"
    and q: "quickWins (analyzeSeo input) = quickWins_of input"
    by (simp_all add: analyzeSeo_def)
  show ?thesis
    unfolding m g w q
    by (simp add: quickWins_of_def Let_def qw_meta_def qw_content_def qw_keywords_def qw_faq_def
        qw_links_def)
qed

theorem C7_quick_wins_witness:
  "quickWins (analyzeSeo ex_shoes) = [qw_meta ex_shoes, qw_content ex_shoes, qw_links]
   \<and> map priority (quickWins (analyzeSeo ex_shoes)) = [Red, Red, Green]
   \<and> quickWins (analyzeSeo ex_absent_target)
       = [qw_meta ex_absent_target, qw_content ex_absent_target, qw_keywords ex_absent_target,
          qw_faq, qw_links]"
proof -
  have a: "metaHasKeyword ex_shoes" "length (metaDescription ex_shoes) = 27"
    "wordCount_out (analyzeSeo ex_shoes) = 7"
    by (simp_all add: ex_shoes_def analyzeSeo_def wordCount_of_def flag_defs string_defs)
  have b: "\<not> (\<exists>k \<in> set (keywords_out (analyzeSeo ex_shoes)). status k = Mangler)"
    by (simp add: ex_shoes_def analyzeSeo_def keywordResults_def allKeywords_def keywordResult_def
        Let_def countOccurrences_def fullText_def string_defs)
  have c: "hasFaq ex_shoes" "internalLinks_of ex_shoes = 1"
    by (simp_all add: ex_shoes_def hasFaq_def internalLinks_of_def detectedLinks_def string_defs
        rx_defs)
  have a': "\<not> metaHasKeyword ex_absent_target" "wordCount_out (analyzeSeo ex_absent_target) = 4"
    by (simp_all add: ex_absent_target_def analyzeSeo_def wordCount_of_def flag_defs string_defs)
  have b': "\<exists>k \<in> set (keywords_out (analyzeSeo ex_absent_target)). status k = Mangler"
    by (simp add: ex_absent_target_def analyzeSeo_def keywordResults_def allKeywords_def
        keywordResult_def Let_def countOccurrences_def fullText_def string_defs)
  have c': "\<not> hasFaq ex_absent_target" "internalLinks_of ex_absent_target = 0"
    by (simp_all add: ex_absent_target_def hasFaq_def internalLinks_of_def detectedLinks_def
        string_defs rx_defs)
  have p: "priority (qw_meta ex_shoes) = Red" "priority (qw_content ex_shoes) = Red"
    "priority qw_links = Green"
    by (simp_all add: qw_meta_def qw_content_def qw_links_def)
  from C7_quick_wins [of ex_shoes] a b c
  have 1: "quickWins (analyzeSeo ex_shoes) = [qw_meta ex_shoes, qw_content ex_shoes, qw_links]"
    by simp
  from C7_quick_wins [of ex_absent_target] a' b' c'
  have 2: "quickWins (analyzeSeo ex_absent_target)
       = [qw_meta ex_absent_target, qw_content ex_absent_target, qw_keywords ex_absent_target,
          qw_faq, qw_links]"
    by simp
  from 1 2 p show ?thesis by simp
qed

subsection \<open>C8: the content gaps\<close>

text \<open>
  C8: the content-gap list has exactly the three topics content length, missing keywords
  and structured data. The description of the first is chosen by word count below 500 or
  not; the description of the second by whether the list of missing keywords (the
  keywords of the records with status Mangler, in table order) is empty, and when it is
  not, it lists the first 4 of them, joined by commas, followed by the suffix
  \<^verbatim>\<open>' m.fl.'\<close> exactly when more than 4 are missing.
\<close>

theorem C8_content_gaps:
  "length (contentGaps (analyzeSeo input)) = 3
   \<and> map gap_num (contentGaps (analyzeSeo input)) =
       [js ''Gap 01 '' @ [0xB7] @ js '' Indholdsl'' @ [0xE6] @ js ''ngde'',
        js ''Gap 02 '' @ [0xB7] @ js '' Manglende keywords'',
        js ''Gap 03 '' @ [0xB7] @ js '' Strukturerede data'']
   \<and> gap_description (contentGaps (analyzeSeo input) ! 0) =
       (if wordCount_out (analyzeSeo input) < 500
        then js ''Med kun ~'' @ number_to_string (wordCount_out (analyzeSeo input))
             @ js '' ord er siden for tyndt indholdsalt. Konkurrenter har typisk 600'' @ [0x2013]
             @ js ''1000+ ord p'' @ [0xE5] @ js '' tilsvarende kategorisider.''
        else js ''Siden har '' @ number_to_string (wordCount_out (analyzeSeo input))
             @ js '' ord. Overvej at uddybe med produktspecifikke detaljer og FAQ for at styrke autoriteten.'')
   \<and> (let missing = map keyword (filter (\<lambda>k. status k = Mangler)
                                      (keywords_out (analyzeSeo input)))
      in gap_description (contentGaps (analyzeSeo input) ! 1) =
          (if missing = []
           then js ''Alle semantiske keywords er d'' @ [0xE6]
                @ js ''kket. Overvej yderligere long-tail varianter for at fange mere trafik.''
                @ [0x27] @ js '',''
           else js ''Disse keywords er ikke fundet p'' @ [0xE5] @ js '' siden: ''
                @ join (js '', '') (take 4 missing)
                @ (if length missing > 4 then js '' m.fl.'' else [])
                @ js ''. Inklud'' @ [0xE9] @ js ''r dem naturligt i br'' @ [0xF8]
                @ js ''dtekst og overskrifter.''))"
proof -
  have m: "map keyword (filter (\<lambda>k. status k = Mangler) (keywords_out (analyzeSeo input)))
      = missingKeywords input"
    by (simp add: analyzeSeo_def missingKeywords_def)
  have w: "wordCount_out (analyzeSeo input) = wordCount_of input"
    and c: "contentGaps (analyzeSeo input) = contentGaps_of input"
    by (simp_all add: analyzeSeo_def)
  have 0: "gap_description (contentGaps_of input ! 0) = gap1_description (wordCount_of input)"
    and 1: "gap_description (contentGaps_of input ! 1) = gap2_description (missingKeywords input)"
    and n: "map gap_num (contentGaps_of input) =
       [js ''Gap 01 '' @ [0xB7] @ js '' Indholdsl'' @ [0xE6] @ js ''ngde'',
        js ''Gap 02 '' @ [0xB7] @ js '' Manglende keywords'',
        js ''Gap 03 '' @ [0xB7] @ js '' Strukturerede data'']"
    and l: "length (contentGaps_of input) = 3"
    by (simp_all add: contentGaps_of_def)
  show ?thesis
    unfolding Let_def m w c 0 1 n l
    by (simp add: gap1_description_def gap2_description_def)
qed

theorem C8_content_gaps_witness:
  "gap_description (contentGaps (analyzeSeo ex_many_missing) ! 1) =
     js ''Disse keywords er ikke fundet p'' @ [0xE5]
     @ js '' siden: boots, lace, sole, heel m.fl.. Inklud'' @ [0xE9] @ js ''r dem naturligt i br''
     @ [0xF8] @ js ''dtekst og overskrifter.''
   \<and> gap_description (contentGaps (analyzeSeo ex_many_missing) ! 0) =
     js ''Med kun ~4 ord er siden for tyndt indholdsalt. Konkurrenter har typisk 600'' @ [0x2013]
     @ js ''1000+ ord p'' @ [0xE5] @ js '' tilsvarende kategorisider.''"
proof -
  have k: "map keyword (filter (\<lambda>k. status k = Mangler) (keywords_out (analyzeSeo ex_many_missing)))
      = [js ''boots'', js ''lace'', js ''sole'', js ''heel'', js ''suede'']"
    by (simp add: ex_many_missing_def analyzeSeo_def keywordResults_def allKeywords_def
        keywordResult_def Let_def countOccurrences_def fullText_def string_defs)
  have w: "wordCount_out (analyzeSeo ex_many_missing) = 4"
    by (simp add: ex_many_missing_def analyzeSeo_def wordCount_of_def string_defs)
  from C8_content_gaps [of ex_many_missing] show ?thesis
    unfolding Let_def k w by (simp add: js_def number_to_string_def)
qed

subsection \<open>C9: the two evaluations of the FAQ detector\<close>

text \<open>
  C9: the FAQ detector of the recommendation list and the one of the quick-win list agree:
  the FAQ recommendation (the seventh, with id \<^verbatim>\<open>faq\<close>) has status ok if and only if the
  FAQ quick win is not in the quick-win list. If the body content contains the word
  \<^verbatim>\<open>FAQ\<close>, the FAQ recommendation has status ok and the FAQ quick win is not appended.
\<close>

theorem C9_faq_agreement:
  "rec_id (recommendations (analyzeSeo input) ! 6) = js ''faq''
   \<and> rec_hasFaq input = hasFaq input
   \<and> (rec_status (recommendations (analyzeSeo input) ! 6) = Ok
        \<longleftrightarrow> qw_faq \<notin> set (quickWins (analyzeSeo input)))
   \<and> (js_includes (bodyContent input) (js ''FAQ'') \<longrightarrow>
        rec_status (recommendations (analyzeSeo input) ! 6) = Ok
        \<and> qw_faq \<notin> set (quickWins (analyzeSeo input)))"
proof -
  have e: "rec_hasFaq input = hasFaq input"
    by (simp add: rec_hasFaq_def hasFaq_def)
  have i: "rec_id (recommendations (analyzeSeo input) ! 6) = js ''faq''"
    and s: "rec_status (recommendations (analyzeSeo input) ! 6) = Ok \<longleftrightarrow> rec_hasFaq input"
    by (simp_all add: analyzeSeo_def recommendations_of_def)
  have q: "qw_faq \<notin> set (quickWins (analyzeSeo input)) \<longleftrightarrow> hasFaq input"
    using qw_faq_in_quickWins [of input] by (simp add: analyzeSeo_def)
  from e i s q hasFaq_of_word [of input] show ?thesis by blast
qed

theorem C9_faq_agreement_witness:
  "js_includes (bodyContent ex_shoes) (js ''FAQ'')
   \<and> rec_status (recommendations (analyzeSeo ex_shoes) ! 6) = Ok
   \<and> qw_faq \<notin> set (quickWins (analyzeSeo ex_shoes))
   \<and> rec_status (recommendations (analyzeSeo ex_absent_target) ! 6) = Warn
   \<and> qw_faq \<in> set (quickWins (analyzeSeo ex_absent_target))"
proof -
  have a: "js_includes (bodyContent ex_shoes) (js ''FAQ'')"
    by (simp add: ex_shoes_def js_def starts_with_def)
  have b: "rec_status (recommendations (analyzeSeo ex_absent_target) ! 6) = Warn"
    by (simp add: ex_absent_target_def analyzeSeo_def recommendations_of_def rec_hasFaq_def
        string_defs rx_defs)
  from C9_faq_agreement [of ex_shoes] C9_faq_agreement [of ex_absent_target] a b
  show ?thesis by simp
qed

subsection \<open>C10: a missing target keyword\<close>

text \<open>
  C10, as stated: whenever the target keyword has zero occurrences in the merged text, it
  is the first of the listed missing keywords, selects the non-empty variant of the
  missing-keywords gap and makes the missing-keywords quick win appear. On the input
  \<open>ex_empty_target\<close> the target keyword is the empty string: it has zero occurrences, the
  one semantic keyword is covered, and yet no keyword is listed as missing, the gap has
  its empty variant and the quick win is not appended.
\<close>

theorem C10_empty_target_counterexample:
  "countOccurrences (fullText ex_empty_target) (targetKeyword ex_empty_target) = 0
   \<and> map keyword (filter (\<lambda>k. status k = Mangler) (keywords_out (analyzeSeo ex_empty_target))) = []
   \<and> gap_title (contentGaps (analyzeSeo ex_empty_target) ! 1) = js ''Semantisk d'' @ [0xE6] @ js ''kning''
   \<and> qw_keywords ex_empty_target \<notin> set (quickWins (analyzeSeo ex_empty_target))"
proof -
  have m: "missingKeywords ex_empty_target = []"
    by (simp add: missingKeywords_def keywordResults_def allKeywords_def keywordResult_def Let_def
        ex_empty_target_def countOccurrences_def fullText_def string_defs)
  have c: "countOccurrences (fullText ex_empty_target) (targetKeyword ex_empty_target) = 0"
    by (simp add: ex_empty_target_def countOccurrences_def)
  have q: "quickWins_of ex_empty_target = [qw_faq, qw_links]"
    unfolding quickWins_of_def Let_def m
    by (simp add: ex_empty_target_def flag_defs wordCount_of_def internalLinks_of_def hasFaq_def
        string_defs rx_defs)
  have d: "qw_keywords ex_empty_target \<noteq> qw_faq" "qw_keywords ex_empty_target \<noteq> qw_links"
    by (simp_all add: qw_keywords_def qw_faq_def qw_links_def js_def)
  from m c q d show ?thesis
    by (simp add: analyzeSeo_def contentGaps_of_def gap2_title_def missingKeywords_def)
qed

text \<open>
  C10, amended: the list of missing keywords is drawn from all keyword records, the one of
  the target keyword included. If the target keyword is not the empty string and has zero
  occurrences in the merged text, it is the first missing keyword, the first keyword the
  gap description lists, and it alone selects the non-empty variant of the
  missing-keywords gap and appends the missing-keywords quick win; when every semantic
  keyword is covered it is the only missing keyword.
\<close>

theorem C10_target_missing:
  "targetKeyword input \<noteq> [] \<Longrightarrow>
   countOccurrences (fullText input) (targetKeyword input) = 0 \<Longrightarrow>
     map keyword (filter (\<lambda>k. status k = Mangler) (keywords_out (analyzeSeo input)))
       = targetKeyword input
         # filter (\<lambda>k. countOccurrences (fullText input) k = 0)
             (filter (\<lambda>k. k \<noteq> []) (semanticKeywords input))
   \<and> ((\<forall>k \<in> set (semanticKeywords input). countOccurrences (fullText input) k \<ge> 1) \<longrightarrow>
        map keyword (filter (\<lambda>k. status k = Mangler) (keywords_out (analyzeSeo input)))
          = [targetKeyword input])
   \<and> gap_title (contentGaps (analyzeSeo input) ! 1) =
       number_to_string (int (length (filter (\<lambda>k. status k = Mangler)
                                         (keywords_out (analyzeSeo input)))))
       @ js '' keywords mangler''
   \<and> starts_with (js ''Disse keywords er ikke fundet p'' @ [0xE5] @ js '' siden: ''
                    @ targetKeyword input)
        (gap_description (contentGaps (analyzeSeo input) ! 1))
   \<and> qw_keywords input \<in> set (quickWins (analyzeSeo input))"
proof -
  assume t: "targetKeyword input \<noteq> []"
    and z: "countOccurrences (fullText input) (targetKeyword input) = 0"
  define rest where "rest = filter (\<lambda>k. countOccurrences (fullText input) k = 0)
             (filter (\<lambda>k. k \<noteq> []) (semanticKeywords input))"
  have m: "missingKeywords input = targetKeyword input # rest"
    using t z by (simp add: missingKeywords_filter allKeywords_def rest_def)
  have k: "map keyword (filter (\<lambda>k. status k = Mangler) (keywords_out (analyzeSeo input)))
      = missingKeywords input"
    and l: "length (filter (\<lambda>k. status k = Mangler) (keywords_out (analyzeSeo input)))
      = length (missingKeywords input)"
    by (simp_all add: analyzeSeo_def missingKeywords_def)
  have only: "(\<forall>k \<in> set (semanticKeywords input). countOccurrences (fullText input) k \<ge> 1)
      \<longrightarrow> rest = []"
    by (auto simp: rest_def filter_empty_conv)
  have g: "gap_title (contentGaps (analyzeSeo input) ! 1)
      = number_to_string (int (length (missingKeywords input))) @ js '' keywords mangler''"
    by (simp add: analyzeSeo_def contentGaps_of_def gap2_title_def m)
  obtain y where j: "join (js '', '') (take 4 (missingKeywords input)) = targetKeyword input @ y"
    by (cases "take 3 rest") (simp_all add: m)
  have d: "starts_with (js ''Disse keywords er ikke fundet p'' @ [0xE5] @ js '' siden: ''
                    @ targetKeyword input)
        (gap_description (contentGaps (analyzeSeo input) ! 1))"
    by (simp add: analyzeSeo_def contentGaps_of_def gap2_description_def j starts_with_def)
      (simp add: m)
  have q: "qw_keywords input \<in> set (quickWins (analyzeSeo input))"
    by (simp add: analyzeSeo_def quickWins_of_def Let_def m)
  from m k l only g d q show ?thesis
    unfolding rest_def [symmetric] by simp
qed

theorem C10_target_missing_witness:
  "targetKeyword ex_absent_target \<noteq> []
   \<and> countOccurrences (fullText ex_absent_target) (targetKeyword ex_absent_target) = 0
   \<and> semanticKeywords ex_absent_target = [js ''shoes'']
   \<and> countOccurrences (fullText ex_absent_target) (js ''shoes'') = 2
   \<and> map keyword (filter (\<lambda>k. status k = Mangler) (keywords_out (analyzeSeo ex_absent_target)))
       = [js ''boots'']
   \<and> gap_title (contentGaps (analyzeSeo ex_absent_target) ! 1) = js ''1 keywords mangler''
   \<and> qw_keywords ex_absent_target \<in> set (quickWins (analyzeSeo ex_absent_target))"
proof -
  have t: "targetKeyword ex_absent_target \<noteq> []"
    and tv: "targetKeyword ex_absent_target = js ''boots''"
    by (simp_all add: ex_absent_target_def js_def)
  have z: "countOccurrences (fullText ex_absent_target) (targetKeyword ex_absent_target) = 0"
    by (simp add: ex_absent_target_def countOccurrences_def fullText_def string_defs)
  have s: "\<forall>k \<in> set (semanticKeywords ex_absent_target).
         countOccurrences (fullText ex_absent_target) k \<ge> 1"
    by (simp add: ex_absent_target_def countOccurrences_def fullText_def string_defs)
  note r = C10_target_missing [OF t z]
  from r s have k: "map keyword (filter (\<lambda>k. status k = Mangler)
      (keywords_out (analyzeSeo ex_absent_target))) = [targetKeyword ex_absent_target]"
    by blast
  have "length (map keyword (filter (\<lambda>k. status k = Mangler)
      (keywords_out (analyzeSeo ex_absent_target)))) = 1"
    unfolding k by simp
  then have l: "length (filter (\<lambda>k. status k = Mangler)
      (keywords_out (analyzeSeo ex_absent_target))) = 1"
    by simp
  from r have "gap_title (contentGaps (analyzeSeo ex_absent_target) ! 1) =
       number_to_string (int (length (filter (\<lambda>k. status k = Mangler)
                                         (keywords_out (analyzeSeo ex_absent_target)))))
       @ js '' keywords mangler''"
    by blast
  then have g: "gap_title (contentGaps (analyzeSeo ex_absent_target) ! 1)
      = js ''1 keywords mangler''"
    unfolding l by (simp add: js_def number_to_string_def)
  from r have q: "qw_keywords ex_absent_target \<in> set (quickWins (analyzeSeo ex_absent_target))"
    by blast
  have sk: "semanticKeywords ex_absent_target = [js ''shoes'']"
    and sc: "countOccurrences (fullText ex_absent_target) (js ''shoes'') = 2"
    by (simp_all add: ex_absent_target_def countOccurrences_def fullText_def string_defs)
  from t z sk sc k g q show ?thesis
    unfolding tv by blast
qed

end
